theory Spec2Isabelle
  imports Complex_Main
begin

section \<open>Screen person detector: the control loop of \<open>screen_person_detection.py\<close>\<close>

text \<open>
  The script owns three things: the fields of a \<open>ScreenPersonDetector\<close> object, one
  overlay window of the GUI toolkit with a canvas on it, and a worker thread that runs
  the capture loop. The detection model, the screen grabber and the toolkit are
  external; whatever they return or raise is an input of the model below, and what the
  script does to them is recorded in the world (live windows, canvas items, a trace of
  the calls that have an effect outside the object).
\<close>

subsection \<open>Exceptions, threads, canvas items\<close>

text \<open>
  All exceptions the script handles are subclasses of \<open>Exception\<close>. The handlers tell
  \<open>tk.TclError\<close> from the rest; the constructor raises \<open>FileNotFoundError\<close> with the
  model path. Everything else a library may raise is \<open>LibError\<close> with its text.
\<close>

datatype exn =
    FileNotFoundError string
  | TclError
  | AttributeError
  | ZeroDivisionError
  | RuntimeError
  | LibError string

type_synonym window = nat

text \<open>The main thread, and the threads the script starts, numbered as they are started.\<close>

datatype thread = MainThread | Spawned nat

text \<open>
  The two kinds of primitive \<open>update_overlay\<close> puts on the canvas, with the options the
  source passes: a rectangle (corners, fill, outline colour, line width) and a text
  (position, content, fill, anchor, font).
\<close>

datatype item =
    Rectangle int int int int "string option" string nat
  | Text int int string string string "string \<times> nat \<times> string"

text \<open>A detection as the loop builds it: \<open>(x1, y1, x2, y2, confidence)\<close>.\<close>

type_synonym detection = "int \<times> int \<times> int \<times> int \<times> rat"

datatype device = Cuda | Cpu

text \<open>
  The lines the script prints. The texts themselves are not ASCII, so a line is
  represented by its kind and the values interpolated into it.
\<close>

datatype message =
    UsingLocalModel string
  | MonitoringStarted int int
  | UsingDevice device
  | StatusEvery rat
  | StatusUpdate int nat
  | ProcessingError exn
  | ScreenCaptureError exn
  | OverlayCreateError exn
  | StartError exn
  | DetectionStopped
  | PressCtrlCOrEsc
  | StartupFailed exn
  | CheckDependencies

datatype effect =
    Print message
  | Sleep rat
  | Created window
  | Destroyed window
  | Quit window
  | Mainloop window
  | StartThread nat
  | Join nat rat
  | GcCollect

subsection \<open>The object and the world\<close>

text \<open>
  The fields \<open>__init__\<close> sets, plus the two attributes that appear later: \<open>canvas\<close>
  (set by \<open>create_overlay_window\<close>) and \<open>process_thread\<close> (set by \<open>start_detection\<close>);
  \<open>None\<close> stands for "attribute not set" there. A window reference is the window's
  identity; the canvas reference is the identity of the window it was packed into.
\<close>

record detector =
  verbose :: bool
  model_path :: string
  confidence_threshold :: rat
  screen_width :: int
  screen_height :: int
  running :: bool
  overlay_window :: "window option"
  canvas :: "window option"
  frame_skip :: int
  frame_count :: int
  last_output_time :: rat
  output_interval :: rat
  process_thread :: "nat option"

text \<open>
  The world: the toolkit windows that exist (\<open>alive\<close>), the identity the next window
  gets, the items on the canvas of each window, the number of threads started so far,
  and the trace of effects in the order they happened.
\<close>

record world =
  alive :: "window list"
  next_window :: window
  drawn :: "window \<Rightarrow> item list"
  spawned :: nat
  trace :: "effect list"

type_synonym state = "detector \<times> world"

definition emit :: "effect \<Rightarrow> world \<Rightarrow> world" where
  "emit e W = W\<lparr>trace := trace W @ [e]\<rparr>"

definition say :: "bool \<Rightarrow> message \<Rightarrow> world \<Rightarrow> world" where
  \<comment> \<open>\<open>if self.verbose: print(...)\<close>\<close>
  "say v m W = (if v then emit (Print m) W else W)"

subsection \<open>Toolkit calls\<close>

text \<open>
  A toolkit call on a window that no longer exists raises \<open>TclError\<close> and changes
  nothing. A call returns the world and the exception it raised, if any.
\<close>

type_synonym 'a raising = "'a \<times> exn option"

definition tk_Tk :: "world \<Rightarrow> window \<times> world" where
  \<comment> \<open>\<open>tk.Tk()\<close> when it succeeds: a new window with an empty surface\<close>
  "tk_Tk W = (next_window W,
     emit (Created (next_window W))
       (W\<lparr>alive := alive W @ [next_window W], next_window := Suc (next_window W),
          drawn := (drawn W)(next_window W := [])\<rparr>))"

definition tk_destroy :: "window \<Rightarrow> world \<Rightarrow> world raising" where
  "tk_destroy n W =
     (if n \<in> set (alive W)
      then (emit (Destroyed n) (W\<lparr>alive := removeAll n (alive W)\<rparr>), None)
      else (W, Some TclError))"

definition tk_quit :: "window \<Rightarrow> world \<Rightarrow> world raising" where
  "tk_quit n W = (if n \<in> set (alive W) then (emit (Quit n) W, None) else (W, Some TclError))"

definition tk_update :: "window \<Rightarrow> world \<Rightarrow> world raising" where
  "tk_update n W = (if n \<in> set (alive W) then (W, None) else (W, Some TclError))"

definition canvas_delete_all :: "window \<Rightarrow> world \<Rightarrow> world raising" where
  "canvas_delete_all n W =
     (if n \<in> set (alive W) then (W\<lparr>drawn := (drawn W)(n := [])\<rparr>, None)
      else (W, Some TclError))"

definition canvas_create :: "window \<Rightarrow> item \<Rightarrow> world \<Rightarrow> world raising" where
  "canvas_create n it W =
     (if n \<in> set (alive W) then (W\<lparr>drawn := (drawn W)(n := drawn W n @ [it])\<rparr>, None)
      else (W, Some TclError))"

definition and_then ::
  "(world \<Rightarrow> world raising) \<Rightarrow> (world \<Rightarrow> world raising) \<Rightarrow> world \<Rightarrow> world raising" where
  \<comment> \<open>two statements in a row: the second runs only if the first did not raise\<close>
  "and_then f g W = (case f W of (W1, None) \<Rightarrow> g W1 | (W1, Some x) \<Rightarrow> (W1, Some x))"

text \<open>What is on screen: the canvas items of the windows that exist.\<close>

definition visible :: "world \<Rightarrow> (window \<times> item list) list" where
  "visible W = map (\<lambda>n. (n, drawn W n)) (alive W)"

subsection \<open>Formatting a confidence with \<open>:.2f\<close>\<close>

text \<open>
  A float is a rational number, and \<open>:.2f\<close> prints the decimal with two places that is
  nearest to its exact value, a tie going to the even neighbour.
\<close>

definition round_half_even :: "rat \<Rightarrow> int" where
  "round_half_even q =
     (let f = \<lfloor>q\<rfloor>; r = q - of_int f
      in if r < 1 / 2 then f else if 1 / 2 < r then f + 1
         else if even f then f else f + 1)"

definition digit :: "nat \<Rightarrow> char" where
  "digit d = ''0123456789'' ! d"

fun digits :: "nat \<Rightarrow> string" where
  "digits n = (if n < 10 then [digit n] else digits (n div 10) @ [digit (n mod 10)])"

declare digits.simps [simp del]

definition format_2f :: "rat \<Rightarrow> string" where
  "format_2f q =
     (let n = nat (round_half_even (\<bar>q\<bar> * 100))
      in (if q < 0 then ''-'' else '''')
         @ digits (n div 100) @ ''.'' @ [digit (n div 10 mod 10), digit (n mod 10)])"

subsection \<open>\<open>update_overlay\<close>\<close>

text \<open>The three primitives drawn for one detection, in the order of the source.\<close>

definition box_item :: "detection \<Rightarrow> item" where
  "box_item d = (case d of (x1, y1, x2, y2, confidence) \<Rightarrow>
     Rectangle x1 y1 x2 y2 None ''red'' 3)"

definition label_of :: "detection \<Rightarrow> string" where
  "label_of d = (case d of (x1, y1, x2, y2, confidence) \<Rightarrow>
     ''Person: '' @ format_2f confidence)"

definition background_item :: "detection \<Rightarrow> item" where
  "background_item d = (case d of (x1, y1, x2, y2, confidence) \<Rightarrow>
     Rectangle (x1 - 2) (y1 - 25) (x1 + 120) (y1 - 5) (Some ''white'') ''red'' 1)"

definition text_item :: "detection \<Rightarrow> item" where
  "text_item d = (case d of (x1, y1, x2, y2, confidence) \<Rightarrow>
     Text x1 (y1 - 10) (label_of d) ''red'' ''sw'' (''Arial'', 14, ''bold''))"

definition draw_detection :: "window \<Rightarrow> detection \<Rightarrow> world \<Rightarrow> world raising" where
  "draw_detection c d =
     and_then (canvas_create c (box_item d))
       (and_then (canvas_create c (background_item d)) (canvas_create c (text_item d)))"

fun draw_detections :: "window \<Rightarrow> detection list \<Rightarrow> world \<Rightarrow> world raising" where
  "draw_detections c [] W = (W, None)"
| "draw_detections c (d # ds) W = and_then (draw_detection c d) (draw_detections c ds) W"

text \<open>
  The \<open>try\<close> block of \<open>update_overlay\<close>. \<open>fault\<close> is an exception the toolkit raises
  on the first call for a reason of its own (a call from a thread the toolkit does not
  accept raises \<open>RuntimeError\<close>); a missing \<open>canvas\<close> attribute raises
  \<open>AttributeError\<close>.
\<close>

definition update_overlay_try ::
  "exn option \<Rightarrow> window \<Rightarrow> detection list \<Rightarrow> state \<Rightarrow> world raising" where
  "update_overlay_try fault w detections s =
     (case s of (self, W) \<Rightarrow>
        (case canvas self of
           None \<Rightarrow> (W, Some AttributeError)
         | Some c \<Rightarrow>
             (case fault of
                Some x \<Rightarrow> (W, Some x)
              | None \<Rightarrow>
                  and_then (canvas_delete_all c)
                    (and_then (draw_detections c detections) (tk_update w)) W)))"

definition update_overlay :: "exn option \<Rightarrow> detection list \<Rightarrow> state \<Rightarrow> state raising" where
  "update_overlay fault detections s =
     (case s of (self, W) \<Rightarrow>
        (case overlay_window self of
           None \<Rightarrow> (s, None)
         | Some w \<Rightarrow>
             (case update_overlay_try fault w detections s of
                (W1, None) \<Rightarrow> ((self, W1), None)
              | (W1, Some TclError) \<Rightarrow> ((self\<lparr>overlay_window := None\<rparr>, W1), None)
              | (W1, Some x) \<Rightarrow> ((self, W1), Some x))))"

subsection \<open>\<open>create_overlay_window\<close>\<close>

text \<open>
  The second \<open>try\<close> block makes eleven toolkit calls, any of which may raise. Three
  places differ in what has been assigned when the exception arrives: in \<open>tk.Tk()\<close>
  itself (nothing created), between the assignment of \<open>overlay_window\<close> and that of
  \<open>canvas\<close> (title, geometry, attributes, lift, the canvas constructor), and after
  the assignment of \<open>canvas\<close> (pack, protocol, bind). The geometry and the attributes
  of the window play no part in what follows and are not recorded.
\<close>

datatype create_stage = AtTk | AtConfigure | AtBind

definition create_failed :: "exn \<Rightarrow> state \<Rightarrow> state raising" where
  \<comment> \<open>\<open>except Exception as e\<close> of \<open>create_overlay_window\<close>\<close>
  "create_failed x s = (case s of (self, W) \<Rightarrow>
     ((self\<lparr>overlay_window := None\<rparr>, say (verbose self) (OverlayCreateError x) W), None))"

definition create_overlay_window ::
  "(create_stage \<times> exn) option \<Rightarrow> state \<Rightarrow> state raising" where
  "create_overlay_window fault s = (case s of (self, W) \<Rightarrow>
     (case (case overlay_window self of
              None \<Rightarrow> (W, None)
            | Some old \<Rightarrow>
                (case tk_destroy old W of
                   (W1, Some TclError) \<Rightarrow> (W1, None)
                 | r \<Rightarrow> r)) of
        (W0, Some x) \<Rightarrow> ((self, W0), Some x)
      | (W0, None) \<Rightarrow>
          (case fault of
             Some (AtTk, x) \<Rightarrow> create_failed x (self, W0)
           | _ \<Rightarrow>
               (case tk_Tk W0 of (n, W1) \<Rightarrow>
                  (case fault of
                     Some (AtConfigure, x) \<Rightarrow>
                       create_failed x (self\<lparr>overlay_window := Some n\<rparr>, W1)
                   | Some (_, x) \<Rightarrow>
                       create_failed x (self\<lparr>overlay_window := Some n, canvas := Some n\<rparr>, W1)
                   | None \<Rightarrow>
                       ((self\<lparr>overlay_window := Some n, canvas := Some n\<rparr>, W1), None))))))"

subsection \<open>\<open>stop_detection\<close>\<close>

text \<open>
  \<open>caller\<close> is the thread that runs the call and \<open>worker_alive\<close> what
  \<open>process_thread.is_alive()\<close> answers. \<open>join\<close> on the calling thread itself raises
  \<open>RuntimeError\<close>; on another thread it waits for at most the timeout.
\<close>

definition join_worker :: "thread \<Rightarrow> bool \<Rightarrow> state \<Rightarrow> world raising" where
  "join_worker caller worker_alive s = (case s of (self, W) \<Rightarrow>
     (case process_thread self of
        None \<Rightarrow> (W, None)
      | Some t \<Rightarrow>
          if worker_alive
          then (if caller = Spawned t then (W, Some RuntimeError) else (emit (Join t 1) W, None))
          else (W, None)))"

definition destroy_from_main :: "thread \<Rightarrow> window \<Rightarrow> world \<Rightarrow> world raising" where
  \<comment> \<open>the \<open>try\<close> block of \<open>stop_detection\<close>\<close>
  "destroy_from_main caller w W =
     (if caller = MainThread then and_then (tk_quit w) (tk_destroy w) W else (W, None))"

definition stop_detection :: "thread \<Rightarrow> bool \<Rightarrow> state \<Rightarrow> state raising" where
  "stop_detection caller worker_alive s = (case s of (self0, W0) \<Rightarrow>
     (let self = self0\<lparr>running := False\<rparr> in
      case join_worker caller worker_alive (self, W0) of
        (W1, Some x) \<Rightarrow> ((self, W1), Some x)
      | (W1, None) \<Rightarrow>
          (case (case overlay_window self of
                   None \<Rightarrow> ((self, W1), None)
                 | Some w \<Rightarrow>
                     (case destroy_from_main caller w W1 of
                        (W2, None) \<Rightarrow> ((self\<lparr>overlay_window := None\<rparr>, W2), None)
                      | (W2, Some TclError) \<Rightarrow> ((self\<lparr>overlay_window := None\<rparr>, W2), None)
                      | (W2, Some x) \<Rightarrow> ((self, W2), Some x))) of
             (s2, Some x) \<Rightarrow> (s2, Some x)
           | ((self2, W2), None) \<Rightarrow>
               ((self2, say (verbose self2) DetectionStopped W2), None))))"

subsection \<open>\<open>process_screen\<close>\<close>

text \<open>
  What the outside supplies to one pass of the loop body: whether the screen grab and
  the conversion raise, what the model returns for the threshold, class list and device
  it is called with, a fault of the toolkit during drawing, and the clock.
\<close>

record box =
  xyxy :: "rat \<times> rat \<times> rat \<times> rat"
  conf :: rat

record frame_env =
  grab_fault :: "exn option"
  convert_fault :: "exn option"
  inference :: "rat \<Rightarrow> nat list \<Rightarrow> device \<Rightarrow> exn + box list list"
  render_fault :: "exn option"
  now :: rat

definition py_int :: "rat \<Rightarrow> int" where
  \<comment> \<open>\<open>int(x)\<close> truncates towards zero\<close>
  "py_int q = (if 0 \<le> q then \<lfloor>q\<rfloor> else \<lceil>q\<rceil>)"

definition to_detection :: "box \<Rightarrow> detection" where
  "to_detection b = (case xyxy b of (x1, y1, x2, y2) \<Rightarrow>
     (py_int x1, py_int y1, py_int x2, py_int y2, conf b))"

definition collect_detections :: "box list list \<Rightarrow> detection list" where
  \<comment> \<open>the two nested \<open>for\<close> loops over results and boxes\<close>
  "collect_detections results = concat (map (map to_detection) results)"

definition after_render :: "frame_env \<Rightarrow> nat \<Rightarrow> state \<Rightarrow> state" where
  \<comment> \<open>the status line and the periodic \<open>gc.collect()\<close> that end the \<open>try\<close> block\<close>
  "after_render e found s = (case s of (self, W) \<Rightarrow>
     (let s1 = (if verbose self \<and> now e - last_output_time self \<ge> output_interval self
                then (self\<lparr>last_output_time := now e\<rparr>,
                      emit (Print (StatusUpdate (frame_count self) found)) W)
                else (self, W))
      in if frame_count (fst s1) mod 30 = 0 then (fst s1, emit GcCollect (snd s1)) else s1))"

definition iteration_try :: "device \<Rightarrow> frame_env \<Rightarrow> state \<Rightarrow> state raising" where
  \<comment> \<open>the \<open>try\<close> block of the loop body\<close>
  "iteration_try dev e s = (case s of (self0, W) \<Rightarrow>
     (let self = self0\<lparr>frame_count := frame_count self0 + 1\<rparr> in
      if frame_skip self = 0 then ((self, W), Some ZeroDivisionError)
      else if frame_count self mod frame_skip self \<noteq> 0
      then ((self, emit (Sleep (1 / 100)) W), None)
      else
        (case grab_fault e of
           Some x \<Rightarrow> ((self, W), Some x)
         | None \<Rightarrow>
             (case convert_fault e of
                Some x \<Rightarrow> ((self, W), Some x)
              | None \<Rightarrow>
                  (case inference e (confidence_threshold self) [0] dev of
                     Inl x \<Rightarrow> ((self, W), Some x)
                   | Inr results \<Rightarrow>
                       (let detections = collect_detections results in
                        case update_overlay (render_fault e) detections (self, W) of
                          (s1, Some x) \<Rightarrow> (s1, Some x)
                        | (s1, None) \<Rightarrow>
                            (after_render e (length detections) s1, None)))))))"

definition iteration_except :: "frame_env \<Rightarrow> exn \<Rightarrow> state \<Rightarrow> state" where
  \<comment> \<open>\<open>except Exception as e\<close> of the loop body\<close>
  "iteration_except e x s = (case s of (self, W) \<Rightarrow>
     (let s1 = (if verbose self \<and> now e - last_output_time self \<ge> 1
                then (self\<lparr>last_output_time := now e\<rparr>, emit (Print (ProcessingError x)) W)
                else (self, W))
      in (fst s1, emit (Sleep (1 / 10)) (snd s1))))"

definition iteration :: "device \<Rightarrow> frame_env \<Rightarrow> state \<Rightarrow> state" where
  "iteration dev e s =
     (case iteration_try dev e s of
        (s1, None) \<Rightarrow> s1
      | (s1, Some x) \<Rightarrow> iteration_except e x s1)"

text \<open>
  The \<open>while self.running\<close> loop runs beside the thread that owns the window. What it
  meets is a sequence of events: a pass through the body with what the outside supplies
  to it, or the write \<open>self.running = False\<close> of a \<open>stop_detection\<close> running in another
  thread. The result says whether the loop has left (\<open>True\<close>) or is still running when
  the events end.
\<close>

datatype loop_event = Frame frame_env | FlagCleared

fun capture_loop :: "device \<Rightarrow> loop_event list \<Rightarrow> state \<Rightarrow> state \<times> bool" where
  "capture_loop dev [] s = (s, \<not> running (fst s))"
| "capture_loop dev (FlagCleared # es) s =
     capture_loop dev es ((fst s)\<lparr>running := False\<rparr>, snd s)"
| "capture_loop dev (Frame e # es) s =
     (if running (fst s) then capture_loop dev es (iteration dev e s) else (s, True))"

record screen_env =
  setup_fault :: "exn option"
  start_time :: rat
  cuda_available :: bool
  events :: "loop_event list"

definition process_screen :: "screen_env \<Rightarrow> state \<Rightarrow> state" where
  "process_screen env s = (case s of (self0, W) \<Rightarrow>
     (case setup_fault env of
        Some x \<Rightarrow> (self0, say (verbose self0) (ScreenCaptureError x) W)
      | None \<Rightarrow>
          (let self = self0\<lparr>last_output_time := start_time env\<rparr>;
               dev = (if cuda_available env then Cuda else Cpu);
               W1 = say (verbose self) (MonitoringStarted (screen_width self) (screen_height self)) W;
               W2 = say (verbose self) (UsingDevice dev) W1;
               W3 = say (verbose self) (StatusEvery (output_interval self)) W2
           in fst (capture_loop dev (events env) (self, W3)))))"

subsection \<open>\<open>start_detection\<close>\<close>

text \<open>
  The worker runs \<open>process_screen\<close> beside the caller; here it is only started. Entering
  the event loop of the window is the effect \<open>Mainloop\<close>; the handlers it dispatches to
  are calls of \<open>stop_detection\<close>.
\<close>

record start_env =
  create_fault :: "(create_stage \<times> exn) option"
  thread_fault :: "exn option"
  mainloop_fault :: "exn option"
  worker_alive_at_stop :: bool

definition start_detection_try :: "start_env \<Rightarrow> state \<Rightarrow> state raising" where
  "start_detection_try env s = (case s of (self0, W0) \<Rightarrow>
     (case create_overlay_window (create_fault env) (self0\<lparr>running := True\<rparr>, W0) of
        (s1, Some x) \<Rightarrow> (s1, Some x)
      | ((self1, W1), None) \<Rightarrow>
          (let t = spawned W1;
               self2 = self1\<lparr>process_thread := Some t\<rparr>;
               W2 = W1\<lparr>spawned := Suc t\<rparr>
           in case thread_fault env of
                Some x \<Rightarrow> ((self2, W2), Some x)
              | None \<Rightarrow>
                  (let W3 = emit (StartThread t) W2 in
                   case overlay_window self2 of
                     None \<Rightarrow> ((self2, W3), None)
                   | Some w \<Rightarrow>
                       (case mainloop_fault env of
                          Some x \<Rightarrow> ((self2, W3), Some x)
                        | None \<Rightarrow> ((self2, emit (Mainloop w) W3), None))))))"

definition start_detection :: "thread \<Rightarrow> start_env \<Rightarrow> state \<Rightarrow> state raising" where
  "start_detection caller env s =
     (case start_detection_try env s of
        (s1, None) \<Rightarrow> (s1, None)
      | ((self1, W1), Some x) \<Rightarrow>
          stop_detection caller (worker_alive_at_stop env)
            (self1, say (verbose self1) (StartError x) W1))"

subsection \<open>Construction and the main program\<close>





subsection \<open>Reading a canvas, and a sample state\<close>

definition detection_items :: "detection \<Rightarrow> item list" where
  "detection_items d = [box_item d, background_item d, text_item d]"









text \<open>What a \<open>join\<close> that does not raise adds to the world.\<close>

definition joined :: "bool \<Rightarrow> detector \<Rightarrow> world \<Rightarrow> world" where
  "joined worker_alive self W =
     (case process_thread self of
        None \<Rightarrow> W
      | Some t \<Rightarrow> if worker_alive then emit (Join t 1) W else W)"

text \<open>
  A detector as the constructor leaves it, after a first \<open>start_detection\<close>: window 0
  exists and is referenced, its canvas shows a box left from an earlier frame, and
  thread 0 is the worker.
\<close>

definition sample_detector :: detector where
  "sample_detector =
     \<lparr>verbose = True, model_path = ''yolov8x.pt'', confidence_threshold = 3 / 10,
      screen_width = 1920, screen_height = 1080, running = True,
      overlay_window = Some 0, canvas = Some 0, frame_skip = 1, frame_count = 7,
      last_output_time = 100, output_interval = 5, process_thread = Some 0\<rparr>"

definition sample_world :: world where
  "sample_world =
     \<lparr>alive = [0], next_window = 1,
      drawn = (\<lambda>n. [])(0 := [Rectangle 1 2 3 4 None ''red'' 3]),
      spawned = 1, trace = [Created 0, StartThread 0, Mainloop 0]\<rparr>"

text \<open>
  Two passes of the loop: one in which the screen grab raises, and one in which every
  step succeeds and the model finds nobody.
\<close>

definition failing_frame :: frame_env where
  "failing_frame =
     \<lparr>grab_fault = Some (LibError ''XGetImage() failed''), convert_fault = None,
      inference = (\<lambda>threshold classes dev. Inr []), render_fault = None, now = 102\<rparr>"

definition quiet_frame :: frame_env where
  "quiet_frame =
     \<lparr>grab_fault = None, convert_fault = None,
      inference = (\<lambda>threshold classes dev. Inr []), render_fault = None, now = 103\<rparr>"

section \<open>Properties\<close>

subsection \<open>Drawing on a window that exists\<close>

lemma draw_detection_alive:
  "c \<in> set (alive W) \<Longrightarrow>
   draw_detection c d W = (W\<lparr>drawn := (drawn W)(c := drawn W c @ detection_items d)\<rparr>, None)"
  by (simp add: draw_detection_def and_then_def canvas_create_def detection_items_def)

lemma draw_detections_alive:
  "c \<in> set (alive W) \<Longrightarrow>
   draw_detections c ds W =
     (W\<lparr>drawn := (drawn W)(c := drawn W c @ concat (map detection_items ds))\<rparr>, None)"
proof (induction ds arbitrary: W)
  case Nil
  then show ?case by simp
next
  case (Cons d ds)
  let ?W1 = "W\<lparr>drawn := (drawn W)(c := drawn W c @ detection_items d)\<rparr>"
  have "c \<in> set (alive ?W1)" using Cons.prems by simp
  from Cons.IH[OF this] draw_detection_alive[OF Cons.prems, of d]
  show ?case by (simp add: and_then_def cong: if_cong)
qed

lemma update_overlay_try_alive:
  "canvas self = Some c \<Longrightarrow> c \<in> set (alive W) \<Longrightarrow>
   update_overlay_try None w ds (self, W) =
     tk_update w (W\<lparr>drawn := (drawn W)(c := concat (map detection_items ds))\<rparr>)"
  by (simp add: update_overlay_try_def and_then_def canvas_delete_all_def draw_detections_alive)

lemma update_overlay_alive:
  "overlay_window self = Some w \<Longrightarrow> canvas self = Some w \<Longrightarrow> w \<in> set (alive W) \<Longrightarrow>
   update_overlay None ds (self, W) =
     ((self, W\<lparr>drawn := (drawn W)(w := concat (map detection_items ds))\<rparr>), None)"
  by (simp add: update_overlay_def update_overlay_try_alive tk_update_def)



lemma length_items: "length (concat (map detection_items ds)) = 3 * length ds"
  by (induction ds) (auto simp: detection_items_def)


lemma format_087: "format_2f (87 / 100) = ''0.87''"
  by code_simp


subsection \<open>What \<open>:.2f\<close> prints\<close>

















subsection \<open>What is drawn\<close>




subsection \<open>The cases of \<open>update_overlay\<close>\<close>

lemma update_overlay_no_window:
  "overlay_window self = None \<Longrightarrow> update_overlay fault ds (self, W) = ((self, W), None)"
  by (simp add: update_overlay_def)

lemma update_overlay_dead_canvas:
  "overlay_window self = Some w \<Longrightarrow> canvas self = Some c \<Longrightarrow> c \<notin> set (alive W) \<Longrightarrow>
   update_overlay None ds (self, W) = ((self\<lparr>overlay_window := None\<rparr>, W), None)"
  by (simp add: update_overlay_def update_overlay_try_def and_then_def canvas_delete_all_def)

lemma update_overlay_dead_window:
  "overlay_window self = Some w \<Longrightarrow> canvas self = Some c \<Longrightarrow> c \<in> set (alive W) \<Longrightarrow>
   w \<notin> set (alive W) \<Longrightarrow>
   update_overlay None ds (self, W) =
     ((self\<lparr>overlay_window := None\<rparr>,
       W\<lparr>drawn := (drawn W)(c := concat (map detection_items ds))\<rparr>), None)"
  by (simp add: update_overlay_def update_overlay_try_alive tk_update_def)

lemma update_overlay_live:
  "overlay_window self = Some w \<Longrightarrow> canvas self = Some c \<Longrightarrow> c \<in> set (alive W) \<Longrightarrow>
   w \<in> set (alive W) \<Longrightarrow>
   update_overlay None ds (self, W) =
     ((self, W\<lparr>drawn := (drawn W)(c := concat (map detection_items ds))\<rparr>), None)"
  by (simp add: update_overlay_def update_overlay_try_alive tk_update_def)

lemma update_overlay_fault:
  "overlay_window self = Some w \<Longrightarrow> canvas self = Some c \<Longrightarrow>
   update_overlay (Some x) ds (self, W) =
     (if x = TclError then ((self\<lparr>overlay_window := None\<rparr>, W), None) else ((self, W), Some x))"
  by (cases x) (simp_all add: update_overlay_def update_overlay_try_def)

lemma update_overlay_no_canvas:
  "overlay_window self = Some w \<Longrightarrow> canvas self = None \<Longrightarrow>
   update_overlay fault ds (self, W) = ((self, W), Some AttributeError)"
  by (simp add: update_overlay_def update_overlay_try_def)

text \<open>
  Claim C6. Rendering is idempotent: a second \<open>update_overlay\<close> with the same
  detections, under the same behaviour of the toolkit, returns what the first returned
  and leaves the state, hence what is visible on the canvases, as the first left it.
  Nothing of the first call is added to: the canvas is cleared before it is drawn.
\<close>

theorem update_overlay_idempotent:
  "update_overlay fault ds (fst (update_overlay fault ds s)) = update_overlay fault ds s
   \<and> visible (snd (fst (update_overlay fault ds (fst (update_overlay fault ds s))))) =
     visible (snd (fst (update_overlay fault ds s)))"
proof -
  have "update_overlay fault ds (fst (update_overlay fault ds s)) = update_overlay fault ds s"
  proof (cases s)
    case (Pair self W)
    show ?thesis
    proof (cases "overlay_window self")
      case None
      then show ?thesis using Pair by (simp add: update_overlay_no_window)
    next
      case (Some w)
      note w = this
      show ?thesis
      proof (cases "canvas self")
        case None
        then show ?thesis using Pair w by (simp add: update_overlay_no_canvas)
      next
        case (Some c)
        note c = this
        show ?thesis
        proof (cases fault)
          case (Some x)
          then show ?thesis using Pair w c
            by (simp add: update_overlay_fault update_overlay_no_window)
        next
          case None
          show ?thesis
          proof (cases "c \<in> set (alive W)")
            case False
            then show ?thesis using Pair w c None
              by (simp add: update_overlay_dead_canvas update_overlay_no_window)
          next
            case True
            note ca = this
            show ?thesis
            proof (cases "w \<in> set (alive W)")
              case False
              then show ?thesis using Pair w c None ca
                by (simp add: update_overlay_dead_window update_overlay_no_window)
            next
              case True
              then show ?thesis using Pair w c None ca
                by (simp add: update_overlay_live)
            qed
          qed
        qed
      qed
    qed
  qed
  then show ?thesis by simp
qed

text \<open>On the sample state, two calls and one call both leave the three primitives.\<close>

theorem update_overlay_idempotent_witness:
  "update_overlay None [(10, 10, 50, 90, 87 / 100)]
     (fst (update_overlay None [(10, 10, 50, 90, 87 / 100)] (sample_detector, sample_world))) =
   update_overlay None [(10, 10, 50, 90, 87 / 100)] (sample_detector, sample_world)
   \<and> visible (snd (fst (update_overlay None [(10, 10, 50, 90, 87 / 100)]
        (sample_detector, sample_world)))) =
     [(0, [Rectangle 10 10 50 90 None ''red'' 3,
           Rectangle 8 (- 15) 130 5 (Some ''white'') ''red'' 1,
           Text 10 0 ''Person: 0.87'' ''red'' ''sw'' (''Arial'', 14, ''bold'')])]"
proof -
  have a: "overlay_window sample_detector = Some 0" "canvas sample_detector = Some 0"
    "0 \<in> set (alive sample_world)"
    by (simp_all add: sample_detector_def sample_world_def)
  have "alive sample_world = [0]" by (simp add: sample_world_def)
  then show ?thesis
    using update_overlay_idempotent [of None "[(10, 10, 50, 90, 87 / 100)]"
        "(sample_detector, sample_world)"]
    by (simp add: update_overlay_alive [OF a] visible_def detection_items_def box_item_def
        background_item_def text_item_def label_of_def format_087)
qed

subsection \<open>A window closed by someone else\<close>

lemma create_overlay_window_first:
  "overlay_window self = None \<Longrightarrow>
   create_overlay_window None (self, W) =
     ((self\<lparr>overlay_window := Some (next_window W), canvas := Some (next_window W)\<rparr>,
       snd (tk_Tk W)), None)"
  by (simp add: create_overlay_window_def tk_Tk_def)

lemma tk_Tk_alive: "next_window W \<in> set (alive (snd (tk_Tk W)))"
  by (simp add: tk_Tk_def emit_def)

text \<open>
  Claim C8. When the overlay window has been destroyed by another context, the toolkit
  raises \<open>TclError\<close> on the first call of \<open>update_overlay\<close>; the exception is
  swallowed, nothing is drawn and the window reference becomes \<open>None\<close>. From then on
  every \<open>update_overlay\<close>, whatever the detections, the toolkit and the world, returns
  at once without touching anything, until \<open>create_overlay_window\<close> makes a new
  window, on which the next call draws again.
\<close>

theorem update_overlay_window_destroyed:
  assumes "overlay_window self = Some w" and "canvas self = Some w" and "w \<notin> set (alive W)"
  shows "update_overlay None ds (self, W) = ((self\<lparr>overlay_window := None\<rparr>, W), None)
         \<and> update_overlay fault' ds' (self\<lparr>overlay_window := None\<rparr>, W') =
             ((self\<lparr>overlay_window := None\<rparr>, W'), None)
         \<and> update_overlay None ds'
             (fst (create_overlay_window None (self\<lparr>overlay_window := None\<rparr>, W))) =
             ((self\<lparr>overlay_window := Some (next_window W), canvas := Some (next_window W)\<rparr>,
               (snd (tk_Tk W))\<lparr>drawn := (drawn (snd (tk_Tk W)))
                  (next_window W := concat (map detection_items ds'))\<rparr>), None)"
  using assms
  by (simp add: update_overlay_dead_canvas update_overlay_no_window create_overlay_window_first
      update_overlay_alive tk_Tk_alive)

text \<open>The sample state after its window 0 was closed; the new window is window 1.\<close>

theorem update_overlay_window_destroyed_witness:
  "update_overlay None [(10, 10, 50, 90, 87 / 100)] (sample_detector, sample_world\<lparr>alive := []\<rparr>) =
     ((sample_detector\<lparr>overlay_window := None\<rparr>, sample_world\<lparr>alive := []\<rparr>), None)
   \<and> update_overlay None [(10, 10, 50, 90, 87 / 100)]
       (sample_detector\<lparr>overlay_window := None\<rparr>, sample_world\<lparr>alive := []\<rparr>) =
     ((sample_detector\<lparr>overlay_window := None\<rparr>, sample_world\<lparr>alive := []\<rparr>), None)
   \<and> drawn (snd (fst (update_overlay None [(10, 10, 50, 90, 87 / 100)]
       (fst (create_overlay_window None
          (sample_detector\<lparr>overlay_window := None\<rparr>, sample_world\<lparr>alive := []\<rparr>)))))) 1 =
     [Rectangle 10 10 50 90 None ''red'' 3,
      Rectangle 8 (- 15) 130 5 (Some ''white'') ''red'' 1,
      Text 10 0 ''Person: 0.87'' ''red'' ''sw'' (''Arial'', 14, ''bold'')]"
proof -
  have a: "overlay_window sample_detector = Some 0" "canvas sample_detector = Some 0"
    "0 \<notin> set (alive (sample_world\<lparr>alive := []\<rparr>))"
    by (simp_all add: sample_detector_def)
  have n: "next_window (sample_world\<lparr>alive := []\<rparr>) = 1" by (simp add: sample_world_def)
  show ?thesis
    using update_overlay_window_destroyed [OF a, of "[(10, 10, 50, 90, 87 / 100)]" None
        "[(10, 10, 50, 90, 87 / 100)]" "sample_world\<lparr>alive := []\<rparr>"]
    by (simp add: n detection_items_def box_item_def background_item_def text_item_def
        label_of_def format_087)
qed

subsection \<open>The cases of \<open>stop_detection\<close>\<close>

lemma join_worker_main: "join_worker MainThread a (self, W) = (joined a self W, None)"
  by (simp add: join_worker_def joined_def split: option.splits)

lemma join_worker_other:
  "\<forall>t. process_thread self = Some t \<and> a \<longrightarrow> caller \<noteq> Spawned t \<Longrightarrow>
   join_worker caller a (self, W) = (joined a self W, None)"
  by (auto simp add: join_worker_def joined_def split: option.splits)

lemma joined_running: "joined a (self\<lparr>running := b\<rparr>) W = joined a self W"
  by (simp add: joined_def)

lemma joined_alive: "alive (joined a self W) = alive W"
  by (simp add: joined_def emit_def split: option.splits)

lemma stop_detection_main_alive:
  "overlay_window self = Some w \<Longrightarrow> w \<in> set (alive W) \<Longrightarrow>
   stop_detection MainThread a (self, W) =
     ((self\<lparr>running := False, overlay_window := None\<rparr>,
       say (verbose self) DetectionStopped
         (emit (Destroyed w)
            ((emit (Quit w) (joined a self W))\<lparr>alive := removeAll w (alive W)\<rparr>))), None)"
  by (simp add: stop_detection_def join_worker_main destroy_from_main_def and_then_def
      tk_quit_def tk_destroy_def joined_alive joined_running emit_def Let_def)


lemma stop_detection_no_window:
  "overlay_window self = None \<Longrightarrow>
   \<forall>t. process_thread self = Some t \<and> a \<longrightarrow> caller \<noteq> Spawned t \<Longrightarrow>
   stop_detection caller a (self, W) =
     ((self\<lparr>running := False\<rparr>, say (verbose self) DetectionStopped (joined a self W)), None)"
  by (simp add: stop_detection_def join_worker_other joined_running Let_def)

lemma stop_detection_not_main:
  "overlay_window self = Some w \<Longrightarrow> caller \<noteq> MainThread \<Longrightarrow>
   \<forall>t. process_thread self = Some t \<and> a \<longrightarrow> caller \<noteq> Spawned t \<Longrightarrow>
   stop_detection caller a (self, W) =
     ((self\<lparr>running := False, overlay_window := None\<rparr>,
       say (verbose self) DetectionStopped (joined a self W)), None)"
  by (simp add: stop_detection_def join_worker_other destroy_from_main_def joined_running Let_def)

lemma count_say: "count_list (trace (say v m W)) (Destroyed w) = count_list (trace W) (Destroyed w)"
  by (simp add: say_def emit_def)

lemma count_joined: "count_list (trace (joined a self W)) (Destroyed w) = count_list (trace W) (Destroyed w)"
  by (simp add: joined_def emit_def split: option.splits)

lemma say_alive: "alive (say v m W) = alive W" "drawn (say v m W) = drawn W"
  by (simp_all add: say_def emit_def)

lemma joined_same_thread:
  "process_thread self' = process_thread self \<Longrightarrow> joined a self' W = joined a self W"
  by (simp add: joined_def)

lemma joined_drawn: "drawn (joined a self W) = drawn W"
  by (simp add: joined_def emit_def split: option.splits)

lemma stop_detection_joins_itself:
  "process_thread self = Some t \<Longrightarrow>
   stop_detection (Spawned t) True (self, W) = ((self\<lparr>running := False\<rparr>, W), Some RuntimeError)"
  by (simp add: stop_detection_def join_worker_def Let_def)

text \<open>
  Claim C3, as stated, fails for callers other than the main thread. Two calls in a row
  from thread 1 (the worker is thread 0) raise nothing and clear the flag and the
  reference, but the window is never destroyed: no \<open>Destroyed 0\<close> is in the trace.
  A call from the live worker itself raises \<open>RuntimeError\<close> in \<open>join\<close>.
\<close>

theorem stop_detection_twice_off_main_counterexample:
  "overlay_window sample_detector = Some 0 \<and> 0 \<in> set (alive sample_world)
   \<and> stop_detection (Spawned 1) True
        (fst (stop_detection (Spawned 1) True (sample_detector, sample_world))) =
       ((sample_detector\<lparr>running := False, overlay_window := None\<rparr>,
         sample_world\<lparr>trace := trace sample_world @
           [Join 0 1, Print DetectionStopped, Join 0 1, Print DetectionStopped]\<rparr>), None)
   \<and> count_list (trace sample_world @
           [Join 0 1, Print DetectionStopped, Join 0 1, Print DetectionStopped]) (Destroyed 0) = 0
   \<and> stop_detection (Spawned 0) True (sample_detector, sample_world) =
       ((sample_detector\<lparr>running := False\<rparr>, sample_world), Some RuntimeError)"
proof -
  have a: "overlay_window sample_detector = Some 0" "0 \<in> set (alive sample_world)"
    by (simp_all add: sample_detector_def sample_world_def)
  have p: "process_thread sample_detector = Some 0" "verbose sample_detector"
    by (simp_all add: sample_detector_def)
  have r1: "stop_detection (Spawned 1) True (sample_detector, sample_world) =
       ((sample_detector\<lparr>running := False, overlay_window := None\<rparr>,
         sample_world\<lparr>trace := trace sample_world @ [Join 0 1, Print DetectionStopped]\<rparr>), None)"
    by (simp add: stop_detection_not_main [OF a(1)] p say_def emit_def joined_def)
  have r2: "stop_detection (Spawned 1) True
       (sample_detector\<lparr>running := False, overlay_window := None\<rparr>,
         sample_world\<lparr>trace := trace sample_world @ [Join 0 1, Print DetectionStopped]\<rparr>) =
       ((sample_detector\<lparr>running := False, overlay_window := None\<rparr>,
         sample_world\<lparr>trace := trace sample_world @
           [Join 0 1, Print DetectionStopped, Join 0 1, Print DetectionStopped]\<rparr>), None)"
    by (simp add: stop_detection_no_window p say_def emit_def joined_def)
  have c: "count_list (trace sample_world @
           [Join 0 1, Print DetectionStopped, Join 0 1, Print DetectionStopped]) (Destroyed 0) = 0"
    by (simp add: sample_world_def)
  have j: "stop_detection (Spawned 0) True (sample_detector, sample_world) =
       ((sample_detector\<lparr>running := False\<rparr>, sample_world), Some RuntimeError)"
    using p(1) by (rule stop_detection_joins_itself)
  show ?thesis using a r1 r2 c j by simp
qed

text \<open>
  Claim C3, amended. Two calls of \<open>stop_detection\<close> in a row, neither made by the live
  worker thread itself, with the window still there before the first: neither raises,
  the running flag is false and the window reference \<open>None\<close> after each. The first
  call destroys the window exactly once when it comes from the main thread (one more
  \<open>Destroyed w\<close> in the trace, the window gone from the world) and not at all when it
  comes from another thread. The second call finds no window reference: it leaves the
  windows and canvases as they are and adds to the world only the wait for the worker
  and the closing message.
\<close>

theorem stop_detection_twice:
  assumes "overlay_window self = Some w" and "w \<in> set (alive W)"
    and "\<forall>t. process_thread self = Some t \<and> a1 \<longrightarrow> c1 \<noteq> Spawned t"
    and "\<forall>t. process_thread self = Some t \<and> a2 \<longrightarrow> c2 \<noteq> Spawned t"
  shows "let r1 = stop_detection c1 a1 (self, W);
             r2 = stop_detection c2 a2 (fst r1)
         in snd r1 = None \<and> snd r2 = None
            \<and> \<not> running (fst (fst r1)) \<and> \<not> running (fst (fst r2))
            \<and> overlay_window (fst (fst r1)) = None \<and> overlay_window (fst (fst r2)) = None
            \<and> alive (snd (fst r1)) =
                (if c1 = MainThread then removeAll w (alive W) else alive W)
            \<and> count_list (trace (snd (fst r1))) (Destroyed w) =
                count_list (trace W) (Destroyed w) + (if c1 = MainThread then 1 else 0)
            \<and> alive (snd (fst r2)) = alive (snd (fst r1))
            \<and> drawn (snd (fst r2)) = drawn (snd (fst r1))
            \<and> snd (fst r2) =
                say (verbose self) DetectionStopped (joined a2 self (snd (fst r1)))
            \<and> count_list (trace (snd (fst r2))) (Destroyed w) =
                count_list (trace W) (Destroyed w) + (if c1 = MainThread then 1 else 0)"
proof -
  let ?self1 = "self\<lparr>running := False, overlay_window := None\<rparr>"
  have second: "stop_detection c2 a2 (?self1, W1) =
          ((?self1, say (verbose self) DetectionStopped (joined a2 self W1)), None)" for W1
  proof -
    have "stop_detection c2 a2 (?self1, W1) =
          ((?self1\<lparr>running := False\<rparr>,
            say (verbose ?self1) DetectionStopped (joined a2 ?self1 W1)), None)"
      using assms(4) by (intro stop_detection_no_window) simp_all
    then show ?thesis by (simp add: joined_same_thread [of ?self1 self])
  qed
  show ?thesis
  proof (cases "c1 = MainThread")
    case True
    let ?W1 = "say (verbose self) DetectionStopped
               (emit (Destroyed w)
                  ((emit (Quit w) (joined a1 self W))\<lparr>alive := removeAll w (alive W)\<rparr>))"
    have r1: "stop_detection c1 a1 (self, W) = ((?self1, ?W1), None)"
      unfolding True using assms(1,2) by (rule stop_detection_main_alive)
    show ?thesis
      unfolding Let_def r1 fst_conv snd_conv second
      using True
      by (simp add: count_say count_joined say_alive joined_alive joined_drawn emit_def)
  next
    case False
    let ?W1 = "say (verbose self) DetectionStopped (joined a1 self W)"
    have r1: "stop_detection c1 a1 (self, W) = ((?self1, ?W1), None)"
      using assms(1) False assms(3) by (rule stop_detection_not_main)
    show ?thesis
      unfolding Let_def r1 fst_conv snd_conv second
      using False
      by (simp add: count_say count_joined say_alive joined_alive joined_drawn)
  qed
qed


text \<open>On the sample state, from the main thread: one \<open>Quit\<close>, one \<open>Destroyed\<close>, two closing messages.\<close>

theorem stop_detection_twice_witness:
  "stop_detection MainThread True (sample_detector, sample_world) =
     ((sample_detector\<lparr>running := False, overlay_window := None\<rparr>,
       sample_world\<lparr>alive := [],
         trace := trace sample_world @ [Join 0 1, Quit 0, Destroyed 0, Print DetectionStopped]\<rparr>),
      None)
   \<and> stop_detection MainThread False
       (fst (stop_detection MainThread True (sample_detector, sample_world))) =
     ((sample_detector\<lparr>running := False, overlay_window := None\<rparr>,
       sample_world\<lparr>alive := [],
         trace := trace sample_world @
           [Join 0 1, Quit 0, Destroyed 0, Print DetectionStopped, Print DetectionStopped]\<rparr>),
      None)
   \<and> count_list (trace (snd (fst (stop_detection MainThread False
       (fst (stop_detection MainThread True (sample_detector, sample_world))))))) (Destroyed 0) = 1"
proof -
  have a: "overlay_window sample_detector = Some 0" "0 \<in> set (alive sample_world)"
    by (simp_all add: sample_detector_def sample_world_def)
  have h: "\<forall>t. process_thread sample_detector = Some t \<and> True \<longrightarrow> MainThread \<noteq> Spawned t"
    "\<forall>t. process_thread sample_detector = Some t \<and> False \<longrightarrow> MainThread \<noteq> Spawned t"
    by simp_all
  have p: "process_thread sample_detector = Some 0" "verbose sample_detector"
    "alive sample_world = [0]"
    by (simp_all add: sample_detector_def sample_world_def)
  have r1: "stop_detection MainThread True (sample_detector, sample_world) =
     ((sample_detector\<lparr>running := False, overlay_window := None\<rparr>,
       sample_world\<lparr>alive := [],
         trace := trace sample_world @ [Join 0 1, Quit 0, Destroyed 0, Print DetectionStopped]\<rparr>),
      None)"
    by (simp add: stop_detection_main_alive [OF a] p say_def emit_def joined_def)
  have r2: "stop_detection MainThread False
       (sample_detector\<lparr>running := False, overlay_window := None\<rparr>,
       sample_world\<lparr>alive := [],
         trace := trace sample_world @ [Join 0 1, Quit 0, Destroyed 0, Print DetectionStopped]\<rparr>) =
     ((sample_detector\<lparr>running := False, overlay_window := None\<rparr>,
       sample_world\<lparr>alive := [],
         trace := trace sample_world @
           [Join 0 1, Quit 0, Destroyed 0, Print DetectionStopped, Print DetectionStopped]\<rparr>),
      None)"
    by (simp add: stop_detection_no_window p say_def emit_def joined_def)
  show ?thesis
    using stop_detection_twice [OF a h]
    by (simp add: r1 r2 p say_def joined_def emit_def) (simp add: sample_world_def)
qed

text \<open>
  Claim C9, as stated, fails: \<open>stop_detection\<close> does not route the destruction to the
  thread that owns the window. Called from a thread other than the main thread (here
  thread 1, while the worker is thread 0), it makes no toolkit call: the window is
  still in the world afterwards, the trace holds nothing but the wait and the message,
  and the reference is gone.
\<close>

theorem stop_detection_off_main_counterexample:
  "overlay_window sample_detector = Some 0 \<and> 0 \<in> set (alive sample_world)
   \<and> stop_detection (Spawned 1) True (sample_detector, sample_world) =
       ((sample_detector\<lparr>running := False, overlay_window := None\<rparr>,
         sample_world\<lparr>trace := trace sample_world @ [Join 0 1, Print DetectionStopped]\<rparr>), None)
   \<and> 0 \<in> set (alive (snd (fst (stop_detection (Spawned 1) True (sample_detector, sample_world)))))"
proof -
  have a: "overlay_window sample_detector = Some 0" "0 \<in> set (alive sample_world)"
    by (simp_all add: sample_detector_def sample_world_def)
  have p: "process_thread sample_detector = Some 0" "verbose sample_detector"
    by (simp_all add: sample_detector_def)
  have "stop_detection (Spawned 1) True (sample_detector, sample_world) =
       ((sample_detector\<lparr>running := False, overlay_window := None\<rparr>,
         sample_world\<lparr>trace := trace sample_world @ [Join 0 1, Print DetectionStopped]\<rparr>), None)"
    by (simp add: stop_detection_not_main [OF a(1)] p say_def emit_def joined_def)
  then show ?thesis using a by simp
qed

text \<open>
  Claim C9, amended. \<open>stop_detection\<close> destroys the overlay window only when the main
  thread calls it: then it quits the event loop, destroys the window and clears the
  reference. Called from any other thread it makes no toolkit call and defers nothing:
  the world changes by the wait for the worker and the message only, and the reference
  is cleared; when that thread is the live worker itself, \<open>join\<close> raises
  \<open>RuntimeError\<close> before the window is looked at.
\<close>

theorem stop_detection_destroys_from_main_only:
  assumes "overlay_window self = Some w" and "w \<in> set (alive W)"
  shows "stop_detection MainThread a (self, W) =
           ((self\<lparr>running := False, overlay_window := None\<rparr>,
             say (verbose self) DetectionStopped
               (emit (Destroyed w)
                  ((emit (Quit w) (joined a self W))\<lparr>alive := removeAll w (alive W)\<rparr>))), None)
         \<and> (caller \<noteq> MainThread
              \<and> (\<forall>t. process_thread self = Some t \<and> a \<longrightarrow> caller \<noteq> Spawned t) \<longrightarrow>
            stop_detection caller a (self, W) =
              ((self\<lparr>running := False, overlay_window := None\<rparr>,
                say (verbose self) DetectionStopped (joined a self W)), None))
         \<and> (process_thread self = Some t \<longrightarrow>
            stop_detection (Spawned t) True (self, W) =
              ((self\<lparr>running := False\<rparr>, W), Some RuntimeError))"
  using assms
  by (simp add: stop_detection_main_alive stop_detection_not_main stop_detection_joins_itself)

text \<open>On the sample state: the main thread, thread 1, and the worker (thread 0) itself.\<close>

theorem stop_detection_destroys_from_main_only_witness:
  "stop_detection MainThread False (sample_detector, sample_world) =
     ((sample_detector\<lparr>running := False, overlay_window := None\<rparr>,
       sample_world\<lparr>alive := [],
         trace := trace sample_world @ [Quit 0, Destroyed 0, Print DetectionStopped]\<rparr>), None)
   \<and> stop_detection (Spawned 1) False (sample_detector, sample_world) =
     ((sample_detector\<lparr>running := False, overlay_window := None\<rparr>,
       sample_world\<lparr>trace := trace sample_world @ [Print DetectionStopped]\<rparr>), None)
   \<and> stop_detection (Spawned 0) True (sample_detector, sample_world) =
     ((sample_detector\<lparr>running := False\<rparr>, sample_world), Some RuntimeError)"
proof -
  have a: "overlay_window sample_detector = Some 0" "0 \<in> set (alive sample_world)"
    by (simp_all add: sample_detector_def sample_world_def)
  have p: "process_thread sample_detector = Some 0" "verbose sample_detector"
    "alive sample_world = [0]"
    by (simp_all add: sample_detector_def sample_world_def)
  show ?thesis
    using stop_detection_destroys_from_main_only [OF a, of False "Spawned 1" 0]
    by (simp add: p say_def emit_def joined_def)
qed

subsection \<open>Creating the window again\<close>

lemma removeAll_only: "set xs \<subseteq> {x} \<Longrightarrow> removeAll x xs = []"
  by (induction xs) auto

lemma destroy_old_alive:
  "old \<in> set (alive W) \<Longrightarrow>
   tk_destroy old W = (emit (Destroyed old) (W\<lparr>alive := removeAll old (alive W)\<rparr>), None)"
  by (simp add: tk_destroy_def)

lemma create_overlay_window_again:
  assumes "overlay_window self = Some old"
  shows "create_overlay_window None (self, W) =
     ((self\<lparr>overlay_window := Some (next_window W), canvas := Some (next_window W)\<rparr>,
       W\<lparr>alive := removeAll old (alive W) @ [next_window W],
         next_window := Suc (next_window W),
         drawn := (drawn W)(next_window W := []),
         trace := trace W @ (if old \<in> set (alive W) then [Destroyed old] else [])
                   @ [Created (next_window W)]\<rparr>), None)"
  using assms by (simp add: create_overlay_window_def tk_destroy_def tk_Tk_def emit_def)

lemma create_overlay_window_never_raises: "snd (create_overlay_window fault s) = None"
  by (cases s)
    (auto simp: create_overlay_window_def create_failed_def tk_destroy_def tk_Tk_def
      split: option.splits prod.splits exn.splits create_stage.splits)

lemma create_overlay_window_alive:
  "overlay_window self = Some old \<Longrightarrow>
   alive (snd (fst (create_overlay_window fault (self, W)))) =
     removeAll old (alive W)
       @ (case fault of Some (AtTk, x) \<Rightarrow> [] | _ \<Rightarrow> [next_window W])"
  by (auto simp: create_overlay_window_def create_failed_def tk_destroy_def tk_Tk_def
      emit_def say_def split: option.splits prod.splits exn.splits create_stage.splits)

lemma create_overlay_window_trace:
  "overlay_window self = Some old \<Longrightarrow> old \<in> set (alive W) \<Longrightarrow>
   take (Suc (length (trace W))) (trace (snd (fst (create_overlay_window fault (self, W))))) =
     trace W @ [Destroyed old]"
  by (auto simp: create_overlay_window_def create_failed_def tk_destroy_def tk_Tk_def
      emit_def say_def split: option.splits prod.splits exn.splits create_stage.splits)

text \<open>
  Claim C4, as stated, fails: \<open>create_overlay_window\<close> destroys the window that is
  referenced, not every window that exists. After a \<open>stop_detection\<close> from thread 1
  window 0 still exists without being referenced, and the next
  \<open>create_overlay_window\<close> leaves two windows. The same happens after a creation that
  failed once \<open>tk.Tk()\<close> had returned: the new window stays, unreferenced, and the
  next creation adds a second one.
\<close>

theorem create_overlay_window_two_windows_counterexample:
  "0 \<in> set (alive (snd (fst (stop_detection (Spawned 1) True (sample_detector, sample_world)))))
   \<and> alive (snd (fst (create_overlay_window None
        (fst (stop_detection (Spawned 1) True (sample_detector, sample_world)))))) = [0, 1]
   \<and> alive (snd (fst (create_overlay_window (Some (AtConfigure, TclError))
        (sample_detector\<lparr>overlay_window := None\<rparr>, sample_world\<lparr>alive := []\<rparr>)))) = [1]
   \<and> alive (snd (fst (create_overlay_window None
        (fst (create_overlay_window (Some (AtConfigure, TclError))
          (sample_detector\<lparr>overlay_window := None\<rparr>, sample_world\<lparr>alive := []\<rparr>)))))) = [1, 2]"
proof -
  have a: "overlay_window sample_detector = Some 0"
    by (simp add: sample_detector_def)
  have p: "process_thread sample_detector = Some 0" "verbose sample_detector"
    "alive sample_world = [0]" "next_window sample_world = 1"
    by (simp_all add: sample_detector_def sample_world_def)
  have s: "stop_detection (Spawned 1) True (sample_detector, sample_world) =
       ((sample_detector\<lparr>running := False, overlay_window := None\<rparr>,
         sample_world\<lparr>trace := trace sample_world @ [Join 0 1, Print DetectionStopped]\<rparr>), None)"
    by (simp add: stop_detection_not_main [OF a] p say_def emit_def joined_def)
  have f: "create_overlay_window (Some (AtConfigure, TclError))
          (sample_detector\<lparr>overlay_window := None\<rparr>, sample_world\<lparr>alive := []\<rparr>) =
      ((sample_detector\<lparr>overlay_window := None\<rparr>,
        sample_world\<lparr>alive := [1], next_window := 2,
          drawn := (drawn sample_world)(1 := []),
          trace := trace sample_world @ [Created 1, Print (OverlayCreateError TclError)]\<rparr>), None)"
    by (simp add: create_overlay_window_def create_failed_def tk_Tk_def emit_def say_def p)
  have c1: "0 \<in> set (alive (snd (fst (stop_detection (Spawned 1) True
      (sample_detector, sample_world)))))"
    unfolding s by (simp add: p)
  have c2: "alive (snd (fst (create_overlay_window None
        (fst (stop_detection (Spawned 1) True (sample_detector, sample_world)))))) = [0, 1]"
    unfolding s fst_conv by (simp add: create_overlay_window_first tk_Tk_def emit_def p)
  have c3: "alive (snd (fst (create_overlay_window (Some (AtConfigure, TclError))
        (sample_detector\<lparr>overlay_window := None\<rparr>, sample_world\<lparr>alive := []\<rparr>)))) = [1]"
    unfolding f by simp
  have c4: "alive (snd (fst (create_overlay_window None
        (fst (create_overlay_window (Some (AtConfigure, TclError))
          (sample_detector\<lparr>overlay_window := None\<rparr>, sample_world\<lparr>alive := []\<rparr>)))))) = [1, 2]"
    unfolding f fst_conv by (simp add: create_overlay_window_first tk_Tk_def emit_def)
  show ?thesis
    by (intro conjI c1 c2 c3 c4)
qed

text \<open>
  Claim C4, amended. When \<open>create_overlay_window\<close> is called while a window is
  referenced, the first thing it does is destroy that window (if the toolkit still has
  it, the trace continues with \<open>Destroyed old\<close>; if not, the \<open>TclError\<close> is
  swallowed); only then is the new window made. A call made while the referenced window
  exists therefore never leaves more windows than there were. When nothing goes wrong
  the new window takes the place of the old one and is the one referenced, and it is the
  only window if the replaced one was the only one.
\<close>

theorem create_overlay_window_replaces:
  assumes "overlay_window self = Some old"
  shows "(old \<in> set (alive W) \<longrightarrow>
            take (Suc (length (trace W)))
              (trace (snd (fst (create_overlay_window fault (self, W))))) =
            trace W @ [Destroyed old])
         \<and> (old \<in> set (alive W) \<longrightarrow>
            length (alive (snd (fst (create_overlay_window fault (self, W))))) \<le>
              length (alive W))
         \<and> create_overlay_window None (self, W) =
             ((self\<lparr>overlay_window := Some (next_window W), canvas := Some (next_window W)\<rparr>,
               W\<lparr>alive := removeAll old (alive W) @ [next_window W],
                 next_window := Suc (next_window W),
                 drawn := (drawn W)(next_window W := []),
                 trace := trace W @ (if old \<in> set (alive W) then [Destroyed old] else [])
                           @ [Created (next_window W)]\<rparr>), None)
         \<and> (set (alive W) \<subseteq> {old} \<longrightarrow>
            alive (snd (fst (create_overlay_window None (self, W)))) = [next_window W])"
proof -
  have less: "length (removeAll old (alive W)) < length (alive W)" if "old \<in> set (alive W)"
    using that by (rule length_removeAll_less)
  have n: "length (alive (snd (fst (create_overlay_window fault (self, W))))) \<le>
      length (alive W)" if "old \<in> set (alive W)"
    using less [OF that]
    by (simp add: create_overlay_window_alive [OF assms]
        split: option.splits prod.splits create_stage.splits)
  have o: "alive (snd (fst (create_overlay_window None (self, W)))) = [next_window W]"
    if "set (alive W) \<subseteq> {old}"
    using removeAll_only [OF that] by (simp add: create_overlay_window_again [OF assms])
  show ?thesis
    using n o create_overlay_window_trace [OF assms, of W fault]
      create_overlay_window_again [OF assms, of W]
    by blast
qed

text \<open>
  On the sample state: window 0 is destroyed, then window 1 created; and when the
  toolkit fails while configuring the new window.
\<close>

theorem create_overlay_window_replaces_witness:
  "create_overlay_window None (sample_detector, sample_world) =
     ((sample_detector\<lparr>overlay_window := Some 1, canvas := Some 1\<rparr>,
       sample_world\<lparr>alive := [1], next_window := 2,
         drawn := (drawn sample_world)(1 := []),
         trace := trace sample_world @ [Destroyed 0, Created 1]\<rparr>), None)
   \<and> length (alive (snd (fst (create_overlay_window (Some (AtConfigure, TclError))
        (sample_detector, sample_world))))) \<le> 1
   \<and> take 4 (trace (snd (fst (create_overlay_window (Some (AtConfigure, TclError))
        (sample_detector, sample_world))))) = trace sample_world @ [Destroyed 0]"
proof -
  have a: "overlay_window sample_detector = Some 0"
    by (simp add: sample_detector_def)
  have p: "next_window sample_world = 1" "alive sample_world = [0]"
    "length (trace sample_world) = 3"
    by (simp_all add: sample_world_def)
  show ?thesis
    using create_overlay_window_replaces [OF a, of sample_world None]
      create_overlay_window_replaces [OF a, of sample_world "Some (AtConfigure, TclError)"]
    by (simp add: p)
qed


subsection \<open>When the window cannot be created\<close>

lemma count_emit:
  "count_list (trace (emit e W)) x = count_list (trace W) x + (if e = x then 1 else 0)"
  by (simp add: emit_def)

lemma mainloop_say: "count_list (trace (say v m W)) (Mainloop w) = count_list (trace W) (Mainloop w)"
  by (simp add: say_def count_emit)

lemma mainloop_joined:
  "count_list (trace (joined a self W)) (Mainloop w) = count_list (trace W) (Mainloop w)"
  by (simp add: joined_def count_emit split: option.splits)

lemma create_overlay_window_fails:
  "overlay_window (fst (fst (create_overlay_window (Some (stage, x)) s))) = None"
  by (cases s; cases stage)
    (auto simp: create_overlay_window_def create_failed_def tk_destroy_def tk_Tk_def
      split: option.splits prod.splits exn.splits)

lemma create_overlay_window_mainloop:
  "count_list (trace (snd (fst (create_overlay_window fault s)))) (Mainloop w) =
   count_list (trace (snd s)) (Mainloop w)"
  by (cases s)
    (auto simp: create_overlay_window_def create_failed_def tk_destroy_def tk_Tk_def
      count_emit mainloop_say
      split: option.splits prod.splits exn.splits create_stage.splits)

lemma create_overlay_window_keeps:
  "verbose (fst (fst (create_overlay_window fault s))) = verbose (fst s)"
  by (cases s)
    (auto simp: create_overlay_window_def create_failed_def tk_destroy_def tk_Tk_def
      split: option.splits prod.splits exn.splits create_stage.splits)

lemma join_worker_mainloop:
  "count_list (trace (fst (join_worker c a s))) (Mainloop w) =
   count_list (trace (snd s)) (Mainloop w)"
  by (cases s) (auto simp: join_worker_def count_emit split: option.splits)

lemma stop_detection_mainloop:
  "overlay_window (fst s) = None \<Longrightarrow>
   count_list (trace (snd (fst (stop_detection c a s)))) (Mainloop w) =
     count_list (trace (snd s)) (Mainloop w)
   \<and> overlay_window (fst (fst (stop_detection c a s))) = None"
  by (cases s)
    (auto simp: stop_detection_def Let_def join_worker_def count_emit mainloop_say
      split: option.splits prod.splits)

lemma start_detection_try_no_window:
  assumes "create_fault env = Some (stage, x)"
  shows "overlay_window (fst (fst (start_detection_try env s))) = None
         \<and> count_list (trace (snd (fst (start_detection_try env s)))) (Mainloop w) =
             count_list (trace (snd s)) (Mainloop w)"
proof (cases s)
  case (Pair self W)
  obtain self1 W1 where c: "create_overlay_window (Some (stage, x)) (self\<lparr>running := True\<rparr>, W) =
      ((self1, W1), None)"
    using create_overlay_window_never_raises [of "Some (stage, x)" "(self\<lparr>running := True\<rparr>, W)"]
    by (cases "create_overlay_window (Some (stage, x)) (self\<lparr>running := True\<rparr>, W)") auto
  have o: "overlay_window self1 = None"
    using create_overlay_window_fails [of stage x "(self\<lparr>running := True\<rparr>, W)"] c by simp
  have m: "count_list (trace W1) (Mainloop w) = count_list (trace W) (Mainloop w)"
    using create_overlay_window_mainloop [of "Some (stage, x)" "(self\<lparr>running := True\<rparr>, W)" w] c
    by simp
  show ?thesis
    using Pair assms c o m
    by (auto simp: start_detection_try_def Let_def count_emit split: option.splits)
qed

lemma start_detection_no_window:
  assumes "create_fault env = Some (stage, x)"
  shows "overlay_window (fst (fst (start_detection caller env s))) = None
         \<and> count_list (trace (snd (fst (start_detection caller env s)))) (Mainloop w) =
             count_list (trace (snd s)) (Mainloop w)"
proof (cases "start_detection_try env s")
  case (Pair s1 r)
  obtain self1 W1 where s1: "s1 = (self1, W1)" by (cases s1)
  have t: "overlay_window self1 = None"
    "count_list (trace W1) (Mainloop w) = count_list (trace (snd s)) (Mainloop w)"
    using start_detection_try_no_window [OF assms, of s w] Pair s1 by simp_all
  show ?thesis
  proof (cases r)
    case None
    then show ?thesis using Pair s1 t by (simp add: start_detection_def)
  next
    case (Some y)
    have "overlay_window (fst (self1, say (verbose self1) (StartError y) W1)) = None"
      using t by simp
    from stop_detection_mainloop [OF this, of caller "worker_alive_at_stop env" w]
    show ?thesis using Pair s1 Some t by (simp add: start_detection_def mainloop_say)
  qed
qed

text \<open>
  Claim C10. \<open>create_overlay_window\<close> never raises: the \<open>TclError\<close> of destroying the
  old window is swallowed and every exception of the toolkit while the new window is
  made is caught, and then the window reference is \<open>None\<close>. A \<open>start_detection\<close> in
  which the creation fails therefore ends with no window reference and does not enter
  the event loop (no \<open>Mainloop\<close> is added to the trace), and every \<open>update_overlay\<close>
  on the state it leaves returns at once.
\<close>

theorem create_failure_is_silent:
  assumes "create_fault env = Some (stage, x)"
  shows "snd (create_overlay_window fault s) = None
         \<and> overlay_window (fst (fst (create_overlay_window (Some (stage, x)) s))) = None
         \<and> overlay_window (fst (fst (start_detection caller env s))) = None
         \<and> count_list (trace (snd (fst (start_detection caller env s)))) (Mainloop w) =
             count_list (trace (snd s)) (Mainloop w)
         \<and> update_overlay f ds (fst (start_detection caller env s)) =
             (fst (start_detection caller env s), None)"
proof -
  obtain self2 W2 where r: "fst (start_detection caller env s) = (self2, W2)"
    by (cases "fst (start_detection caller env s)")
  have "overlay_window self2 = None"
    using start_detection_no_window [OF assms, of caller s w] r by simp
  then have "update_overlay f ds (self2, W2) = ((self2, W2), None)"
    by (rule update_overlay_no_window)
  then show ?thesis
    using start_detection_no_window [OF assms, of caller s w] r
    by (simp add: create_overlay_window_never_raises create_overlay_window_fails)
qed


text \<open>
  A start from a detector without window in which the toolkit fails while the new window
  is configured: the worker is started, the event loop is not entered.
\<close>

theorem create_failure_is_silent_witness:
  "start_detection MainThread
     \<lparr>create_fault = Some (AtConfigure, TclError), thread_fault = None,
      mainloop_fault = None, worker_alive_at_stop = True\<rparr>
     (sample_detector\<lparr>running := False, overlay_window := None\<rparr>, sample_world\<lparr>alive := [], trace := []\<rparr>) =
     ((sample_detector\<lparr>running := True, overlay_window := None, process_thread := Some 1\<rparr>,
       sample_world\<lparr>alive := [1], next_window := 2, drawn := (drawn sample_world)(1 := []),
          spawned := 2,
          trace := [Created 1, Print (OverlayCreateError TclError), StartThread 1]\<rparr>), None)
   \<and> update_overlay None [(10, 10, 50, 90, 87 / 100)]
       (fst (start_detection MainThread
         \<lparr>create_fault = Some (AtConfigure, TclError), thread_fault = None,
          mainloop_fault = None, worker_alive_at_stop = True\<rparr>
         (sample_detector\<lparr>running := False, overlay_window := None\<rparr>,
          sample_world\<lparr>alive := [], trace := []\<rparr>))) =
     (fst (start_detection MainThread
         \<lparr>create_fault = Some (AtConfigure, TclError), thread_fault = None,
          mainloop_fault = None, worker_alive_at_stop = True\<rparr>
         (sample_detector\<lparr>running := False, overlay_window := None\<rparr>,
          sample_world\<lparr>alive := [], trace := []\<rparr>)), None)"
proof -
  have e: "create_fault \<lparr>create_fault = Some (AtConfigure, TclError), thread_fault = None,
      mainloop_fault = None, worker_alive_at_stop = True\<rparr> = Some (AtConfigure, TclError)"
    by simp
  have "start_detection MainThread
     \<lparr>create_fault = Some (AtConfigure, TclError), thread_fault = None,
      mainloop_fault = None, worker_alive_at_stop = True\<rparr>
     (sample_detector\<lparr>running := False, overlay_window := None\<rparr>, sample_world\<lparr>alive := [], trace := []\<rparr>) =
     ((sample_detector\<lparr>running := True, overlay_window := None, process_thread := Some 1\<rparr>,
       sample_world\<lparr>alive := [1], next_window := 2, drawn := (drawn sample_world)(1 := []),
          spawned := 2,
          trace := [Created 1, Print (OverlayCreateError TclError), StartThread 1]\<rparr>), None)"
    by (simp add: start_detection_def start_detection_try_def create_overlay_window_def
        create_failed_def tk_Tk_def emit_def say_def sample_detector_def sample_world_def)
  then show ?thesis
    using create_failure_is_silent [OF e, of None
        "(sample_detector\<lparr>running := False, overlay_window := None\<rparr>,
          sample_world\<lparr>alive := [], trace := []\<rparr>)" MainThread 0 None
        "[(10, 10, 50, 90, 87 / 100)]"]
    by simp
qed

subsection \<open>Start-up\<close>






subsection \<open>The capture loop\<close>

lemma update_overlay_keeps:
  "frame_count (fst (fst (update_overlay f ds s))) = frame_count (fst s)
   \<and> running (fst (fst (update_overlay f ds s))) = running (fst s)"
  by (cases s)
    (auto simp: update_overlay_def split: option.splits prod.splits exn.splits)

lemma after_render_keeps:
  "frame_count (fst (after_render e n s)) = frame_count (fst s)
   \<and> running (fst (after_render e n s)) = running (fst s)"
  by (cases s) (simp add: after_render_def Let_def)

lemma update_overlay_keepsD:
  "update_overlay f ds (self, W) = ((self', W'), r) \<Longrightarrow>
   frame_count self' = frame_count self \<and> running self' = running self"
  using update_overlay_keeps [of f ds "(self, W)"] by simp

lemma iteration_try_keeps:
  "frame_count (fst (fst (iteration_try dev e s))) = frame_count (fst s) + 1
   \<and> running (fst (fst (iteration_try dev e s))) = running (fst s)"
  by (cases s)
    (auto simp: iteration_try_def Let_def after_render_keeps
      split: option.splits sum.splits prod.splits dest!: update_overlay_keepsD)

lemma iteration_except_keeps:
  "frame_count (fst (iteration_except e x s)) = frame_count (fst s)
   \<and> running (fst (iteration_except e x s)) = running (fst s)"
  by (cases s) (simp add: iteration_except_def Let_def)

lemma iteration_keeps:
  "frame_count (fst (iteration dev e s)) = frame_count (fst s) + 1
   \<and> running (fst (iteration dev e s)) = running (fst s)"
proof (cases "iteration_try dev e s")
  case (Pair s1 r)
  then show ?thesis
    using iteration_try_keeps [of dev e s]
    by (cases r) (simp_all add: iteration_def iteration_except_keeps)
qed

lemma step_faults_raise:
  assumes "frame_skip self = 1"
  shows "grab_fault e = Some x \<Longrightarrow>
           iteration_try dev e (self, W) =
             ((self\<lparr>frame_count := frame_count self + 1\<rparr>, W), Some x)"
    and "grab_fault e = None \<Longrightarrow> convert_fault e = Some x \<Longrightarrow>
           iteration_try dev e (self, W) =
             ((self\<lparr>frame_count := frame_count self + 1\<rparr>, W), Some x)"
    and "grab_fault e = None \<Longrightarrow> convert_fault e = None \<Longrightarrow>
         inference e (confidence_threshold self) [0] dev = Inl x \<Longrightarrow>
           iteration_try dev e (self, W) =
             ((self\<lparr>frame_count := frame_count self + 1\<rparr>, W), Some x)"
    and "grab_fault e = None \<Longrightarrow> convert_fault e = None \<Longrightarrow>
         inference e (confidence_threshold self) [0] dev = Inr results \<Longrightarrow>
         update_overlay (render_fault e) (collect_detections results)
           (self\<lparr>frame_count := frame_count self + 1\<rparr>, W) = (s1, Some x) \<Longrightarrow>
           iteration_try dev e (self, W) = (s1, Some x)"
  using assms by (simp_all add: iteration_try_def Let_def)

text \<open>
  Claim C1. When the \<open>try\<close> block of a pass through the loop raises an exception
  (\<open>step_faults_raise\<close>: a fault of the grab, of the conversion, of the model or of the
  drawing does so), the pass ends in the handler: it prints the error if the detector
  is verbose and the last line is at least one second old (and then restarts that
  second), sleeps a tenth of a second, and leaves the running flag set, with the frame
  counter one higher than before. The loop goes on to the next pass, after which the
  counter is two higher.
\<close>

theorem capture_loop_survives_exception:
  assumes "running self" and "iteration_try dev e (self, W) = ((self1, W1), Some x)"
  shows "iteration dev e (self, W) =
           (if verbose self1 \<and> now e - last_output_time self1 \<ge> 1
            then (self1\<lparr>last_output_time := now e\<rparr>,
                  emit (Sleep (1 / 10)) (emit (Print (ProcessingError x)) W1))
            else (self1, emit (Sleep (1 / 10)) W1))
         \<and> running (fst (iteration dev e (self, W)))
         \<and> frame_count (fst (iteration dev e (self, W))) = frame_count self + 1
         \<and> capture_loop dev (Frame e # Frame e' # es) (self, W) =
             capture_loop dev es (iteration dev e' (iteration dev e (self, W)))
         \<and> frame_count (fst (iteration dev e' (iteration dev e (self, W)))) =
             frame_count self + 2"
proof -
  have it: "iteration dev e (self, W) =
           (if verbose self1 \<and> now e - last_output_time self1 \<ge> 1
            then (self1\<lparr>last_output_time := now e\<rparr>,
                  emit (Sleep (1 / 10)) (emit (Print (ProcessingError x)) W1))
            else (self1, emit (Sleep (1 / 10)) W1))"
    using assms(2) by (simp add: iteration_def iteration_except_def Let_def)
  have r: "running (fst (iteration dev e (self, W)))"
    using iteration_keeps [of dev e "(self, W)"] assms(1) by simp
  have c: "frame_count (fst (iteration dev e (self, W))) = frame_count self + 1"
    using iteration_keeps [of dev e "(self, W)"] by simp
  have c2: "frame_count (fst (iteration dev e' (iteration dev e (self, W)))) =
      frame_count self + 2"
    using iteration_keeps [of dev e' "iteration dev e (self, W)"] c by simp
  have l: "capture_loop dev (Frame e # Frame e' # es) (self, W) =
      capture_loop dev es (iteration dev e' (iteration dev e (self, W)))"
    using assms(1) r by simp
  show ?thesis using it r c c2 l by blast
qed


text \<open>The sample detector: a pass whose screen grab fails, then a quiet pass.\<close>

theorem capture_loop_survives_exception_witness:
  "iteration Cpu failing_frame (sample_detector, sample_world) =
     (sample_detector\<lparr>frame_count := 8, last_output_time := 102\<rparr>,
      sample_world\<lparr>trace := trace sample_world @
        [Print (ProcessingError (LibError ''XGetImage() failed'')), Sleep (1 / 10)]\<rparr>)
   \<and> frame_count (fst (iteration Cpu quiet_frame
        (iteration Cpu failing_frame (sample_detector, sample_world)))) = 9
   \<and> capture_loop Cpu [Frame failing_frame, Frame quiet_frame] (sample_detector, sample_world) =
       (iteration Cpu quiet_frame (iteration Cpu failing_frame (sample_detector, sample_world)),
        False)"
proof -
  have r: "running sample_detector" by (simp add: sample_detector_def)
  have k: "frame_skip sample_detector = 1" by (simp add: sample_detector_def)
  have g: "grab_fault failing_frame = Some (LibError ''XGetImage() failed'')"
    by (simp add: failing_frame_def)
  have p: "verbose sample_detector" "last_output_time sample_detector = 100"
    "frame_count sample_detector = 7" "now failing_frame = 102"
    by (simp_all add: sample_detector_def failing_frame_def)
  note t = step_faults_raise(1) [OF k g, of Cpu sample_world]
  note c = capture_loop_survives_exception [OF r t, of quiet_frame "[]"]
  have i1: "iteration Cpu failing_frame (sample_detector, sample_world) =
     (sample_detector\<lparr>frame_count := 8, last_output_time := 102\<rparr>,
      sample_world\<lparr>trace := trace sample_world @
        [Print (ProcessingError (LibError ''XGetImage() failed'')), Sleep (1 / 10)]\<rparr>)"
    using c by (simp add: p emit_def)
  have f: "frame_count (fst (iteration Cpu quiet_frame
        (iteration Cpu failing_frame (sample_detector, sample_world)))) =
      frame_count sample_detector + 2"
    using c by blast
  have f2: "frame_count (fst (iteration Cpu quiet_frame
        (iteration Cpu failing_frame (sample_detector, sample_world)))) = 9"
    by (simp add: f p(3))
  have r1: "running (fst (iteration Cpu failing_frame (sample_detector, sample_world)))"
    using c by blast
  have r2: "running (fst (iteration Cpu quiet_frame
        (iteration Cpu failing_frame (sample_detector, sample_world))))"
    using iteration_keeps [of Cpu quiet_frame
        "iteration Cpu failing_frame (sample_detector, sample_world)"] r1
    by simp
  have l: "capture_loop Cpu [Frame failing_frame, Frame quiet_frame]
        (sample_detector, sample_world) =
       (iteration Cpu quiet_frame (iteration Cpu failing_frame (sample_detector, sample_world)),
        False)"
    using r r1 r2 by simp
  show ?thesis
    by (rule conjI [OF i1 conjI [OF f2 l]])
qed

end
